theory Spec2Isabelle
  imports Complex_Main
begin

section \<open>The equation solver of the resilience lifecycle dashboard\<close>

text \<open>
  The theory embeds the class \<open>Solver\<close> of \<open>dashboard/dashboard.js\<close> as it is written: the
  constructor, the two derivative methods \<open>computeDrDt\<close> and \<open>computeDaDt\<close>, and the getter
  \<open>solution\<close>, whose loop is meant to fill three arrays by the forward Euler method.

  The body of that loop cannot complete. Its first statement, line 35, calls \<open>append\<close> on an
  array made by \<open>Array()\<close>; arrays have no such method, so the call raises a TypeError.
  Lines 40 and 41 would read the identifier \<open>self\<close>, which the class does not bind, and assign
  to the undeclared variables \<open>delta_rob\<close> and \<open>delta_ada\<close>, which strict code (the body of a
  class) refuses. The getter therefore returns only when the loop is not entered.
\<close>

subsection \<open>Numbers\<close>

text \<open>
  A number is an IEEE 754 double: \<open>NaN\<close>, an infinity, or a finite value \<open>Fin x\<close> with \<open>x\<close> the
  real number it denotes. The two zeros are identified: the class does not divide, and no
  other operation it uses tells them apart. The type has a \<open>Fin x\<close> for every real \<open>x\<close>, also
  for those that are not doubles; what is proved of all numbers holds of the doubles, and
  every operation returns a double or rounds to one.
\<close>

datatype number = NaN | PosInf | NegInf | Fin real

text \<open>The power \<open>2^k\<close> for an integer \<open>k\<close>.\<close>

definition pow2 :: "int \<Rightarrow> real" where
  "pow2 k = (if 0 \<le> k then 2 ^ nat k else 1 / 2 ^ nat (- k))"

text \<open>
  The binary exponent of \<open>x > 0\<close>: the \<open>e\<close> with \<open>2^e \<le> x < 2^(e+1)\<close>, found by halving and
  doubling. The first argument bounds the number of steps.
\<close>

fun ilog2 :: "nat \<Rightarrow> real \<Rightarrow> int" where
  "ilog2 0 x = 0"
| "ilog2 (Suc n) x =
     (if 2 \<le> x then ilog2 n (x / 2) + 1 else if x < 1 then ilog2 n (x * 2) - 1 else 0)"

text \<open>
  The exponent that fixes the spacing of the doubles around \<open>x\<close>: the binary exponent, and
  \<open>-1022\<close> below the normal range. The exact result of one operation on two doubles lies
  between \<open>2^(-2148)\<close> and \<open>2^2048\<close>, so 2200 steps suffice.
\<close>

definition exponent :: "real \<Rightarrow> int" where
  "exponent x = max (ilog2 2200 \<bar>x\<bar>) (- 1022)"

text \<open>Rounding to the nearest integer, a tie to the even one.\<close>

definition round_even :: "real \<Rightarrow> int" where
  "round_even y =
     (let n = \<lfloor>y\<rfloor>; d = y - of_int n
      in if d < 1 / 2 then n else if 1 / 2 < d then n + 1 else if even n then n else n + 1)"

text \<open>
  The double that an operation returns for the exact result \<open>x\<close>: \<open>x\<close> rounded to 53
  significant bits, to the nearest, a tie to the even one; an infinity when the rounded
  value reaches \<open>2^1024\<close>.
\<close>

definition fl :: "real \<Rightarrow> number" where
  "fl x =
     (if x = 0 then Fin 0
      else let u = pow2 (exponent x - 52);
               y = of_int (round_even (x / u)) * u
           in if 2 ^ 1024 \<le> \<bar>y\<bar> then (if 0 < x then PosInf else NegInf) else Fin y)"

text \<open>The sign of a number that is not \<open>NaN\<close>.\<close>

fun negative :: "number \<Rightarrow> bool" where
  "negative NegInf = True"
| "negative (Fin x) = (x < 0)"
| "negative _ = False"

instantiation number :: "{plus, minus, times}"
begin

fun plus_number :: "number \<Rightarrow> number \<Rightarrow> number" where
  "plus_number (Fin x) (Fin y) = fl (x + y)"
| "plus_number NaN _ = NaN"
| "plus_number _ NaN = NaN"
| "plus_number PosInf NegInf = NaN"
| "plus_number NegInf PosInf = NaN"
| "plus_number PosInf _ = PosInf"
| "plus_number _ PosInf = PosInf"
| "plus_number NegInf _ = NegInf"
| "plus_number _ NegInf = NegInf"

fun minus_number :: "number \<Rightarrow> number \<Rightarrow> number" where
  "minus_number (Fin x) (Fin y) = fl (x - y)"
| "minus_number NaN _ = NaN"
| "minus_number _ NaN = NaN"
| "minus_number PosInf PosInf = NaN"
| "minus_number NegInf NegInf = NaN"
| "minus_number PosInf _ = PosInf"
| "minus_number _ PosInf = NegInf"
| "minus_number NegInf _ = NegInf"
| "minus_number _ NegInf = PosInf"

fun times_number :: "number \<Rightarrow> number \<Rightarrow> number" where
  "times_number (Fin x) (Fin y) = fl (x * y)"
| "times_number NaN _ = NaN"
| "times_number _ NaN = NaN"
| "times_number x y =
     (if x = Fin 0 \<or> y = Fin 0 then NaN
      else if negative x = negative y then PosInf else NegInf)"

instance ..

end

text \<open>The operator \<open><=\<close> of the loop condition.\<close>

fun js_le :: "number \<Rightarrow> number \<Rightarrow> bool" where
  "js_le NaN _ = False"
| "js_le _ NaN = False"
| "js_le NegInf _ = True"
| "js_le _ PosInf = True"
| "js_le (Fin x) (Fin y) = (x \<le> y)"
| "js_le _ _ = False"

text \<open>A real number that is a double: rounding leaves it as it is.\<close>

definition representable :: "real \<Rightarrow> bool" where
  "representable x = (fl x = Fin x)"

subsection \<open>Errors\<close>

text \<open>
  \<open>TypeError\<close> and \<open>ReferenceError\<close> are the errors that statements of the class can raise.
  \<open>InvalidParameter\<close> is the error kind that the specification names; no statement of the
  class raises it.
\<close>

datatype error = TypeError | ReferenceError | InvalidParameter

text \<open>How a call ends: with a value, or with an error.\<close>

datatype 'a completion = Return 'a | Throw error

subsection \<open>Objects\<close>

text \<open>
  The object \<open>initial_values\<close> and the object that \<open>solution\<close> returns have the same three
  keys; the first holds numbers, the second holds references to arrays.
\<close>

record 'a columns =
  robustness :: 'a
  adaptivity :: 'a
  time :: 'a

text \<open>
  The dictionary \<open>params\<close>: the eight coefficients that the constructor documents, and the
  keys \<open>time_step\<close> and \<open>end\<close> that the loop reads (\<open>end\<close> is written \<open>end'\<close>).
\<close>

record params =
  alpha_r :: number
  alpha_a :: number
  q :: number
  gamma_r0 :: number
  gamma_r2 :: number
  gamma_a :: number
  beta_a :: number
  beta_r :: number
  time_step :: number
  end' :: number

text \<open>The two attributes that the constructor stores.\<close>

record solver =
  params :: params
  initial_values :: "number columns"

definition constructor :: "params \<Rightarrow> number columns \<Rightarrow> solver" where
  "constructor ps ivs = \<lparr>params = ps, initial_values = ivs\<rparr>"

subsection \<open>What lies outside the solver object\<close>

text \<open>
  Arrays are held by reference, so they live in a store: the list of all arrays allocated so
  far, a reference being a position in that list. The global variables are the second part
  of the state that a call could change: lines 40 and 41 assign to names that the class
  does not declare.
\<close>

type_synonym array = "number list"
type_synonym store = "array list"
type_synonym ref = nat

record realm =
  heap :: store
  globals :: "(string \<times> number) list"

text \<open>
  The class does not bind the identifier \<open>self\<close> of lines 40 and 41: what the expression
  \<open>self.params.time_step\<close> yields, a number or an error, is up to the page that loads the
  script, and is a parameter of the embedding.
\<close>

record host =
  self_time_step :: "error + number"

text \<open>The call \<open>Array()\<close> allocates a new empty array and returns a reference to it.\<close>

definition Array :: "store \<Rightarrow> ref \<times> store" where
  "Array st = (length st, st @ [[]])"

text \<open>The contents of the three arrays of a solution object.\<close>

definition contents :: "store \<Rightarrow> ref columns \<Rightarrow> array columns" where
  "contents st sol =
     \<lparr>robustness = st ! robustness sol, adaptivity = st ! adaptivity sol, time = st ! time sol\<rparr>"

subsection \<open>The derivatives\<close>

text \<open>
  Each method reads \<open>this.params\<close> and returns the value of one expression, evaluated from
  left to right; it is given the state and hands it back.
\<close>

definition computeDrDt :: "solver \<Rightarrow> number \<Rightarrow> number \<Rightarrow> realm \<Rightarrow> number \<times> realm" where
  "computeDrDt this rob ada w =
     (let ps = params this
      in (alpha_r ps * (Fin 1 - q ps) + gamma_r0 ps * rob - gamma_r2 ps * rob * rob * rob
            - beta_a ps * ada, w))"

definition computeDaDt :: "solver \<Rightarrow> number \<Rightarrow> number \<Rightarrow> realm \<Rightarrow> number \<times> realm" where
  "computeDaDt this rob ada w =
     (let ps = params this
      in (alpha_a ps * q ps - gamma_a ps * ada + beta_r ps * rob, w))"

subsection \<open>The getter \<open>solution\<close>\<close>

text \<open>
  The variables of one activation of the getter: the solver object, the state outside it,
  the three current values and the local variable \<open>solution\<close>.
\<close>

record frame =
  this :: solver
  realm :: realm
  curr_rob :: number
  curr_ada :: number
  curr_time :: number
  solution_var :: "ref columns"

text \<open>
  A statement takes a frame and ends normally (\<open>None\<close>) or with an error, in either case
  with a frame. Statements in sequence: the second is not run when the first raises.
\<close>

type_synonym statement = "frame \<Rightarrow> error option \<times> frame"

definition seq :: "statement \<Rightarrow> statement \<Rightarrow> statement" where
  "seq s1 s2 f = (case s1 f of (None, f') \<Rightarrow> s2 f' | (Some e, f') \<Rightarrow> (Some e, f'))"

text \<open>
  The call \<open>a.append(v)\<close> for an array \<open>a\<close> made by \<open>Array()\<close>: an array has no property
  \<open>append\<close>, the callee is \<open>undefined\<close>, and the call raises a TypeError. Nothing is changed.
\<close>

definition call_append :: "ref \<Rightarrow> number \<Rightarrow> statement" where
  "call_append a v f = (Some TypeError, f)"

text \<open>
  An assignment to a name that the class does not declare. The body of a class is strict
  code: the assignment sets the global variable of that name when there is one, and raises
  a ReferenceError otherwise.
\<close>

definition assign_global :: "string \<Rightarrow> number \<Rightarrow> statement" where
  "assign_global x v f =
     (if x \<in> fst ` set (globals (realm f))
      then (None, f\<lparr>realm := (realm f)\<lparr>globals :=
                    map (\<lambda>(k, u). if k = x then (k, v) else (k, u)) (globals (realm f))\<rparr>\<rparr>)
      else (Some ReferenceError, f))"

text \<open>Reading such a name.\<close>

definition read_global :: "string \<Rightarrow> frame \<Rightarrow> error + number" where
  "read_global x f =
     (case map_of (globals (realm f)) x of None \<Rightarrow> Inl ReferenceError | Some v \<Rightarrow> Inr v)"

text \<open>The condition of the loop, line 33.\<close>

definition guard :: "frame \<Rightarrow> bool" where
  "guard f = js_le (curr_time f) (end' (params (this f)))"

text \<open>One iteration: lines 35, 36, 37, 40, 41, 42, 43 and 44, in this order.\<close>

definition body :: "host \<Rightarrow> statement" where
  "body h =
     seq (\<lambda>f. call_append (robustness (solution_var f)) (curr_rob f) f)
    (seq (\<lambda>f. call_append (adaptivity (solution_var f)) (curr_ada f) f)
    (seq (\<lambda>f. call_append (time (solution_var f)) (curr_time f) f)
    (seq (\<lambda>f. let (d, w) = computeDrDt (this f) (curr_rob f) (curr_ada f) (realm f)
              in case self_time_step h of
                   Inl e \<Rightarrow> (Some e, f\<lparr>realm := w\<rparr>)
                 | Inr ts \<Rightarrow> assign_global ''delta_rob'' (d * ts) (f\<lparr>realm := w\<rparr>))
    (seq (\<lambda>f. let (d, w) = computeDaDt (this f) (curr_rob f) (curr_ada f) (realm f)
              in case self_time_step h of
                   Inl e \<Rightarrow> (Some e, f\<lparr>realm := w\<rparr>)
                 | Inr ts \<Rightarrow> assign_global ''delta_ada'' (d * ts) (f\<lparr>realm := w\<rparr>))
    (seq (\<lambda>f. case read_global ''delta_rob'' f of
                   Inl e \<Rightarrow> (Some e, f)
                 | Inr d \<Rightarrow> (None, f\<lparr>curr_rob := curr_rob f + d\<rparr>))
    (seq (\<lambda>f. case read_global ''delta_ada'' f of
                   Inl e \<Rightarrow> (Some e, f)
                 | Inr d \<Rightarrow> (None, f\<lparr>curr_ada := curr_ada f + d\<rparr>))
         (\<lambda>f. (None, f\<lparr>curr_time := curr_time f + time_step (params (this f))\<rparr>))))))))"

text \<open>
  The loop. It ends when the condition is false or when an iteration raises; \<open>None\<close> stands
  for a loop that never ends.
\<close>

partial_function (option) while_loop :: "host \<Rightarrow> frame \<Rightarrow> (error option \<times> frame) option" where
  "while_loop h f =
     (if guard f
      then (case body h f of
              (None, f') \<Rightarrow> while_loop h f'
            | (Some e, f') \<Rightarrow> Some (Some e, f'))
      else Some (None, f))"

declare while_loop.simps [code]

text \<open>
  Lines 29 and 32: the current values are read from \<open>initial_values\<close>, and the solution
  object gets three new empty arrays.
\<close>

definition initial_frame :: "realm \<Rightarrow> solver \<Rightarrow> frame" where
  "initial_frame w this0 =
     (let ivs = initial_values this0;
          (r, st1) = Array (heap w);
          (a, st2) = Array st1;
          (t, st3) = Array st2
      in \<lparr>this = this0, realm = w\<lparr>heap := st3\<rparr>,
           curr_rob = robustness ivs, curr_ada = adaptivity ivs, curr_time = time ivs,
           solution_var = \<lparr>robustness = r, adaptivity = a, time = t\<rparr>\<rparr>)"

text \<open>
  The getter takes the state outside the solver object and the solver object. When the loop
  ends it returns the solution object or raises the error of the loop, and leaves a state
  and a solver object behind.
\<close>

definition solution ::
  "host \<Rightarrow> realm \<Rightarrow> solver \<Rightarrow> (ref columns completion \<times> realm \<times> solver) option" where
  "solution h w this0 =
     map_option
       (\<lambda>(c, f). (case c of None \<Rightarrow> Return (solution_var f) | Some e \<Rightarrow> Throw e, realm f, this f))
       (while_loop h (initial_frame w this0))"

text \<open>
  What a caller observes of a call: the three sequences or the error, or nothing when the
  call does not end.
\<close>

definition trajectory :: "host \<Rightarrow> realm \<Rightarrow> solver \<Rightarrow> array columns completion option" where
  "trajectory h w this0 =
     map_option
       (\<lambda>(c, w', this'). case c of Return sol \<Rightarrow> Return (contents (heap w') sol) | Throw e \<Rightarrow> Throw e)
       (solution h w this0)"

text \<open>
  The number of iterations that the loop begins: the loop again, counting instead of
  returning the frame.
\<close>

partial_function (option) begun :: "host \<Rightarrow> frame \<Rightarrow> nat option" where
  "begun h f =
     (if guard f
      then (case body h f of
              (None, f') \<Rightarrow> Option.bind (begun h f') (\<lambda>n. Some (Suc n))
            | (Some e, f') \<Rightarrow> Some 1)
      else Some 0)"

subsection \<open>Example inputs\<close>

text \<open>A page without a global variable \<open>params\<close> and without other global variables.\<close>

definition page :: host where
  "page = \<lparr>self_time_step = Inl TypeError\<rparr>"

definition fresh :: realm where
  "fresh = \<lparr>heap = [], globals = []\<rparr>"

text \<open>
  The parameters of the concrete scenario of the specification, with the step, the end and
  the initial time left open.
\<close>

definition example :: "number \<Rightarrow> number \<Rightarrow> number \<Rightarrow> solver" where
  "example h e t0 =
     constructor
       \<lparr>alpha_r = Fin 1, alpha_a = Fin 1, q = Fin (1 / 2), gamma_r0 = Fin 0, gamma_r2 = Fin 0,
        gamma_a = Fin 0, beta_a = Fin 0, beta_r = Fin 0, time_step = h, end' = e\<rparr>
       \<lparr>robustness = Fin 0, adaptivity = Fin 0, time = t0\<rparr>"

text \<open>
  A solver with coupled equations whose initial state \<open>(1, 1/2)\<close> is a zero of both
  derivatives; step 1 from time 0 to the end 2.
\<close>

definition at_rest :: solver where
  "at_rest =
     constructor
       \<lparr>alpha_r = Fin 1, alpha_a = Fin 1, q = Fin (1 / 2), gamma_r0 = Fin 1, gamma_r2 = Fin 1,
        gamma_a = Fin 3, beta_a = Fin 1, beta_r = Fin 1, time_step = Fin 1, end' = Fin 2\<rparr>
       \<lparr>robustness = Fin 1, adaptivity = Fin (1 / 2), time = Fin 0\<rparr>"

text \<open>The same coupled equations started away from rest, in \<open>(2, 1)\<close>.\<close>

definition coupled :: solver where
  "coupled =
     constructor
       \<lparr>alpha_r = Fin 1, alpha_a = Fin 1, q = Fin (1 / 2), gamma_r0 = Fin 1, gamma_r2 = Fin 1,
        gamma_a = Fin 3, beta_a = Fin 1, beta_r = Fin 1, time_step = Fin 1, end' = Fin 2\<rparr>
       \<lparr>robustness = Fin 2, adaptivity = Fin 1, time = Fin 0\<rparr>"

text \<open>All coefficients zero but \<open>gamma_r2 = 1\<close>.\<close>

definition cubic :: solver where
  "cubic =
     constructor
       \<lparr>alpha_r = Fin 0, alpha_a = Fin 0, q = Fin 0, gamma_r0 = Fin 0, gamma_r2 = Fin 1,
        gamma_a = Fin 0, beta_a = Fin 0, beta_r = Fin 0, time_step = Fin 1, end' = Fin 2\<rparr>
       \<lparr>robustness = Fin 0, adaptivity = Fin 0, time = Fin 0\<rparr>"

text \<open>All coefficients zero but \<open>alpha_a = q = 3^20\<close>.\<close>

definition squares :: solver where
  "squares =
     constructor
       \<lparr>alpha_r = Fin 0, alpha_a = Fin 3486784401, q = Fin 3486784401, gamma_r0 = Fin 0,
        gamma_r2 = Fin 0, gamma_a = Fin 0, beta_a = Fin 0, beta_r = Fin 0, time_step = Fin 1,
        end' = Fin 2\<rparr>
       \<lparr>robustness = Fin 0, adaptivity = Fin 0, time = Fin 0\<rparr>"

section \<open>Rounding\<close>

lemma ilog2_numeral:
  "ilog2 (numeral k) x =
     (if 2 \<le> x then ilog2 (pred_numeral k) (x / 2) + 1
      else if x < 1 then ilog2 (pred_numeral k) (x * 2) - 1 else 0)"
  by (simp add: numeral_eq_Suc)

lemmas fl_eval = fl_def exponent_def ilog2_numeral round_even_def pow2_def Let_def

text \<open>Checks of \<open>fl\<close> against known doubles: one tenth, and the tie \<open>2^53 + 1\<close>.\<close>

lemma fl_tenth: "fl (1 / 10) = Fin (3602879701896397 / 36028797018963968)"
  by (simp add: fl_eval)

lemma fl_tie: "fl 9007199254740993 = Fin 9007199254740992"
  by (simp add: fl_eval)

text \<open>Halving \<open>k\<close> times at once.\<close>

lemma ilog2_halve:
  "2 ^ k \<le> x \<Longrightarrow> k \<le> n \<Longrightarrow> ilog2 n x = ilog2 (n - k) (x / 2 ^ k) + int k"
proof (induction k arbitrary: n x)
  case 0
  show ?case by simp
next
  case (Suc k)
  from Suc.prems obtain m where n: "n = Suc m" by (cases n) auto
  have "(2::real) ^ Suc k \<ge> 2" by (simp add: self_le_power)
  with Suc.prems have x2: "2 \<le> x" by linarith
  have "2 ^ k \<le> x / 2" using Suc.prems by simp
  from Suc.IH [OF this, of m] Suc.prems n
  have "ilog2 m (x / 2) = ilog2 (m - k) (x / 2 / 2 ^ k) + int k" by simp
  with x2 n show ?case by (simp add: field_simps)
qed

text \<open>A product that overflows: \<open>2^700 * 2^700\<close>.\<close>

lemma fl_overflow: "fl (2 ^ 700 * 2 ^ 700) = PosInf"
proof -
  have "ilog2 2200 (2 ^ 1400 :: real) = ilog2 (2200 - 1400) (2 ^ 1400 / 2 ^ 1400) + int 1400"
    by (rule ilog2_halve) simp_all
  also have "\<dots> = 1400" by (simp add: ilog2_numeral)
  finally have e: "exponent (2 ^ 1400) = 1400" by (simp add: exponent_def)
  have m: "(2::real) ^ 700 * 2 ^ 700 = 2 ^ 1400" by (simp flip: power_add)
  have u: "pow2 (1400 - 52) = 2 ^ 1348" by (simp add: pow2_def)
  have d: "(2::real) ^ 1400 / 2 ^ 1348 = 2 ^ 52" by (simp flip: power_diff)
  have r: "round_even (2 ^ 52) = 2 ^ 52" by (simp add: round_even_def)
  show ?thesis
    unfolding m fl_def e u d r Let_def
    by (simp flip: power_add)
qed

lemma fl_small:
  "fl 0 = Fin 0" "fl 1 = Fin 1" "fl (- 1) = Fin (- 1)" "fl (1 / 2) = Fin (1 / 2)"
  "fl (3 / 2) = Fin (3 / 2)"
  by (simp_all add: fl_eval)

section \<open>The getter as it runs\<close>

text \<open>An iteration raises in its first statement and changes nothing.\<close>

lemma body_raises: "body h f = (Some TypeError, f)"
  by (simp add: body_def seq_def call_append_def)

lemma while_loop_eq:
  "while_loop h f = Some (if guard f then (Some TypeError, f) else (None, f))"
  by (subst while_loop.simps) (simp add: body_raises)

lemma begun_eq: "begun h f = Some (if guard f then 1 else 0)"
  by (subst begun.simps) (simp add: body_raises)

lemma guard_initial:
  "guard (initial_frame w s) = js_le (time (initial_values s)) (end' (params s))"
  by (simp add: guard_def initial_frame_def Array_def Let_def)

text \<open>
  Every call ends. It raises the TypeError when the loop is entered, and returns a solution
  object with three new empty arrays otherwise; the solver object and the global variables
  are as before, and the store has the three new arrays at its end.
\<close>

lemma solution_eq:
  "solution h w s =
     Some (if js_le (time (initial_values s)) (end' (params s)) then Throw TypeError
           else Return \<lparr>robustness = length (heap w), adaptivity = Suc (length (heap w)),
                         time = Suc (Suc (length (heap w)))\<rparr>,
           w\<lparr>heap := heap w @ [[], [], []]\<rparr>, s)"
  by (simp add: solution_def while_loop_eq guard_initial)
    (simp add: initial_frame_def Array_def Let_def)

lemma trajectory_eq:
  "trajectory h w s =
     Some (if js_le (time (initial_values s)) (end' (params s)) then Throw TypeError
           else Return \<lparr>robustness = [], adaptivity = [], time = []\<rparr>)"
  by (simp add: trajectory_def solution_eq contents_def nth_append)

lemma example_fields:
  "time_step (params (example h e t)) = h" "end' (params (example h e t)) = e"
  "time (initial_values (example h e t)) = t"
  by (simp_all add: example_def constructor_def)

section \<open>The derivative methods\<close>

lemma fst_computeDrDt:
  "fst (computeDrDt s x y w) =
     alpha_r (params s) * (Fin 1 - q (params s)) + gamma_r0 (params s) * x
       - gamma_r2 (params s) * x * x * x - beta_a (params s) * y"
  by (simp add: computeDrDt_def Let_def)

lemma fst_computeDaDt:
  "fst (computeDaDt s x y w) =
     alpha_a (params s) * q (params s) - gamma_a (params s) * y + beta_r (params s) * x"
  by (simp add: computeDaDt_def Let_def)

text \<open>
  C3, with exact replaced by exact up to rounding. The two methods evaluate
  \<open>alpha_r*(1 - q) + gamma_r0*rob - gamma_r2*rob*rob*rob - beta_a*ada\<close> and
  \<open>alpha_a*q - gamma_a*ada + beta_r*rob\<close> in double arithmetic from left to right. For
  finite arguments and parameter values the result is the exact value of the formula of the
  claim whenever the exact result of every operation is a double, so that no operation
  rounds. Both methods leave the state as it is, for all arguments.
\<close>

theorem derivatives_formulas:
  assumes "list_all representable
      [1 - qv, ar * (1 - qv), g0 * rob, ar * (1 - qv) + g0 * rob,
       g2 * rob, g2 * rob * rob, g2 * rob * rob * rob,
       ar * (1 - qv) + g0 * rob - g2 * rob * rob * rob, ba * ada,
       ar * (1 - qv) + g0 * rob - g2 * rob * rob * rob - ba * ada]"
    and "list_all representable
      [aa * qv, ga * ada, aa * qv - ga * ada, br * rob, aa * qv - ga * ada + br * rob]"
  shows "computeDrDt
           (constructor
              \<lparr>alpha_r = Fin ar, alpha_a = Fin aa, q = Fin qv, gamma_r0 = Fin g0,
                gamma_r2 = Fin g2, gamma_a = Fin ga, beta_a = Fin ba, beta_r = Fin br,
                time_step = h, end' = e\<rparr> ivs)
           (Fin rob) (Fin ada) w
           = (Fin (ar * (1 - qv) + g0 * rob - g2 * rob ^ 3 - ba * ada), w)
       \<and> computeDaDt
           (constructor
              \<lparr>alpha_r = Fin ar, alpha_a = Fin aa, q = Fin qv, gamma_r0 = Fin g0,
                gamma_r2 = Fin g2, gamma_a = Fin ga, beta_a = Fin ba, beta_r = Fin br,
                time_step = h, end' = e\<rparr> ivs)
           (Fin rob) (Fin ada) w
           = (Fin (aa * qv - ga * ada + br * rob), w)
       \<and> snd (computeDrDt s x y w) = w \<and> snd (computeDaDt s x y w) = w"
proof -
  have cube: "g2 * rob ^ 3 = g2 * rob * rob * rob" by (simp add: power3_eq_cube mult.assoc)
  show ?thesis
    using assms
    by (simp add: computeDrDt_def computeDaDt_def constructor_def Let_def representable_def cube)
qed

text \<open>At the solver at rest, in \<open>(1, 1/2)\<close>, no operation rounds, and both derivatives are 0.\<close>

theorem derivatives_formulas_witness:
  "list_all representable
      [1 - 1 / 2, 1 * (1 - 1 / 2), 1 * 1, 1 * (1 - 1 / 2) + 1 * 1,
       1 * 1, 1 * 1 * 1, 1 * 1 * 1 * 1,
       1 * (1 - 1 / 2) + 1 * 1 - 1 * 1 * 1 * 1, 1 * (1 / 2),
       1 * (1 - 1 / 2) + 1 * 1 - 1 * 1 * 1 * 1 - 1 * (1 / 2)]
   \<and> list_all representable
      [1 * (1 / 2), 3 * (1 / 2), 1 * (1 / 2) - 3 * (1 / 2), 1 * 1,
       1 * (1 / 2) - 3 * (1 / 2) + 1 * 1]
   \<and> computeDrDt at_rest (Fin 1) (Fin (1 / 2)) fresh = (Fin 0, fresh)
   \<and> computeDaDt at_rest (Fin 1) (Fin (1 / 2)) fresh = (Fin 0, fresh)"
proof -
  have r: "list_all representable
      [1 - 1 / 2, 1 * (1 - 1 / 2), 1 * 1, 1 * (1 - 1 / 2) + 1 * 1,
       1 * 1, 1 * 1 * 1, 1 * 1 * 1 * 1,
       1 * (1 - 1 / 2) + 1 * 1 - 1 * 1 * 1 * 1, 1 * (1 / 2),
       1 * (1 - 1 / 2) + 1 * 1 - 1 * 1 * 1 * 1 - 1 * (1 / 2)]"
    by (simp add: representable_def fl_eval)
  have a: "list_all representable
      [1 * (1 / 2), 3 * (1 / 2), 1 * (1 / 2) - 3 * (1 / 2), 1 * 1,
       1 * (1 / 2) - 3 * (1 / 2) + 1 * 1]"
    by (simp add: representable_def fl_eval)
  from derivatives_formulas [OF r a, where h = "Fin 1" and e = "Fin 2" and w = fresh
      and ivs = "\<lparr>robustness = Fin 1, adaptivity = Fin (1 / 2), time = Fin 0\<rparr>"]
  have "computeDrDt at_rest (Fin 1) (Fin (1 / 2)) fresh = (Fin 0, fresh)
      \<and> computeDaDt at_rest (Fin 1) (Fin (1 / 2)) fresh = (Fin 0, fresh)"
    by (simp add: at_rest_def)
  with r a show ?thesis by blast
qed

text \<open>
  The results are not exact in general. With \<open>gamma_r2 = 1\<close>, the other coefficients 0 and
  \<open>rob = 531441\<close>, the exact value of the first formula is \<open>- 531441^3\<close>, which is
  \<open>-150094635296999121\<close>; the last product rounds, and \<open>computeDrDt\<close> returns
  \<open>-150094635296999136\<close>. With \<open>alpha_a = q = 3486784401\<close> and the other coefficients 0,
  the exact value of the second formula is \<open>12157665459056928801\<close>, and \<open>computeDaDt\<close>
  returns \<open>12157665459056928768\<close>.
\<close>

theorem exact_value_counterexample:
  "fst (computeDrDt cubic (Fin 531441) (Fin 0) fresh) = Fin (- 150094635296999136)
   \<and> (0 * (1 - 0) + 0 * 531441 - 1 * 531441 ^ 3 - 0 * 0 :: real) = - 150094635296999121
   \<and> fst (computeDrDt cubic (Fin 531441) (Fin 0) fresh)
       \<noteq> Fin (0 * (1 - 0) + 0 * 531441 - 1 * 531441 ^ 3 - 0 * 0)
   \<and> fst (computeDaDt squares (Fin 0) (Fin 0) fresh) = Fin 12157665459056928768
   \<and> (3486784401 * 3486784401 - 0 * 0 + 0 * 0 :: real) = 12157665459056928801
   \<and> fst (computeDaDt squares (Fin 0) (Fin 0) fresh)
       \<noteq> Fin (3486784401 * 3486784401 - 0 * 0 + 0 * 0)"
proof -
  have "fst (computeDrDt cubic (Fin 531441) (Fin 0) fresh) = Fin (- 150094635296999136)"
    by (simp add: fst_computeDrDt cubic_def constructor_def fl_eval)
  moreover have "fst (computeDaDt squares (Fin 0) (Fin 0) fresh) = Fin 12157665459056928768"
    by (simp add: fst_computeDaDt squares_def constructor_def fl_eval)
  ultimately show ?thesis by simp
qed

section \<open>Runs that do not enter the loop\<close>

text \<open>
  C1, as the code has it. The getter does not validate \<open>time_step\<close>. For a finite step
  \<open>x \<le> 0\<close> the call ends, and not with \<open>InvalidParameter\<close>; when the loop condition is false at
  the start, the loop begins no iteration and the call returns, without an error, a solution
  object with three empty sequences.
\<close>

theorem no_validation:
  assumes "time_step (params s) = Fin x" and "x \<le> 0"
  shows "(\<exists>c w'. solution h w s = Some (c, w', s) \<and> c \<noteq> Throw InvalidParameter)
       \<and> (\<not> js_le (time (initial_values s)) (end' (params s)) \<longrightarrow>
            begun h (initial_frame w s) = Some 0
            \<and> (\<exists>sol w'. solution h w s = Some (Return sol, w', s)
                  \<and> contents (heap w') sol = \<lparr>robustness = [], adaptivity = [], time = []\<rparr>))"
  by (simp add: solution_eq begun_eq guard_initial contents_def nth_append)

text \<open>Step \<open>-1\<close>, started at time 3 with end 2.\<close>

theorem no_validation_witness:
  "time_step (params (example (Fin (- 1)) (Fin 2) (Fin 3))) = Fin (- 1) \<and> (- 1 :: real) \<le> 0
   \<and> \<not> js_le (time (initial_values (example (Fin (- 1)) (Fin 2) (Fin 3))))
           (end' (params (example (Fin (- 1)) (Fin 2) (Fin 3))))
   \<and> (\<exists>c w'. solution page fresh (example (Fin (- 1)) (Fin 2) (Fin 3))
                    = Some (c, w', example (Fin (- 1)) (Fin 2) (Fin 3))
              \<and> c \<noteq> Throw InvalidParameter)
   \<and> begun page (initial_frame fresh (example (Fin (- 1)) (Fin 2) (Fin 3))) = Some 0
   \<and> (\<exists>sol w'. solution page fresh (example (Fin (- 1)) (Fin 2) (Fin 3))
                    = Some (Return sol, w', example (Fin (- 1)) (Fin 2) (Fin 3))
              \<and> contents (heap w') sol = \<lparr>robustness = [], adaptivity = [], time = []\<rparr>)"
  using no_validation [of "example (Fin (- 1)) (Fin 2) (Fin 3)" "- 1" page fresh]
  by (simp add: example_fields)

text \<open>
  A step that is not positive does not make the call fail with \<open>InvalidParameter\<close>. With
  step \<open>-1\<close> and with step 0, started at time 3 with end 2, the call returns three empty
  sequences and no error; with step 0, started at time 0 with end 2, it enters the loop and
  ends with the TypeError of line 35.
\<close>

theorem invalid_step_counterexample:
  "solution page fresh (example (Fin (- 1)) (Fin 2) (Fin 3))
     = Some (Return \<lparr>robustness = 0, adaptivity = 1, time = 2\<rparr>,
             \<lparr>heap = [[], [], []], globals = []\<rparr>, example (Fin (- 1)) (Fin 2) (Fin 3))
   \<and> solution page fresh (example (Fin 0) (Fin 2) (Fin 3))
     = Some (Return \<lparr>robustness = 0, adaptivity = 1, time = 2\<rparr>,
             \<lparr>heap = [[], [], []], globals = []\<rparr>, example (Fin 0) (Fin 2) (Fin 3))
   \<and> solution page fresh (example (Fin 0) (Fin 2) (Fin 0))
     = Some (Throw TypeError,
             \<lparr>heap = [[], [], []], globals = []\<rparr>, example (Fin 0) (Fin 2) (Fin 0))"
  by (simp add: solution_eq example_fields fresh_def)

section \<open>Termination\<close>

text \<open>
  C6, with the bound cut off at 0. For a finite step \<open>x > 0\<close> the call ends, and the number
  of iterations that the loop begins is at most \<open>max 0 ((e - t0) / x + 1)\<close> for a finite
  initial time \<open>t0\<close> and a finite end \<open>e\<close>; it is 0 when the loop condition is false at the
  start.
\<close>

theorem termination_count:
  assumes "time_step (params s) = Fin x" and "0 < x"
  shows "\<exists>k r. solution h w s = Some r
           \<and> begun h (initial_frame w s) = Some k
           \<and> (\<forall>t0 e. time (initial_values s) = Fin t0 \<and> end' (params s) = Fin e \<longrightarrow>
                 real k \<le> max 0 ((e - t0) / x + 1))
           \<and> (\<not> js_le (time (initial_values s)) (end' (params s)) \<longrightarrow> k = 0)"
proof -
  have "real (if t0 \<le> e then 1 else 0) \<le> max 0 ((e - t0) / x + 1)" for t0 e :: real
    using assms(2) by (simp add: max_def)
  then show ?thesis
    by (simp add: solution_eq begun_eq guard_initial)
qed

text \<open>The scenario of the specification: step 1 from time 0 to the end 2.\<close>

theorem termination_count_witness:
  "time_step (params (example (Fin 1) (Fin 2) (Fin 0))) = Fin 1 \<and> (0 :: real) < 1
   \<and> (\<exists>k r. solution page fresh (example (Fin 1) (Fin 2) (Fin 0)) = Some r
           \<and> begun page (initial_frame fresh (example (Fin 1) (Fin 2) (Fin 0))) = Some k
           \<and> real k \<le> max 0 ((2 - 0) / 1 + 1))"
  using termination_count [of "example (Fin 1) (Fin 2) (Fin 0)" 1 page fresh]
  by (simp add: example_fields)

text \<open>
  The bound without the cut fails when the end is more than one step before the initial
  time: started at time 2 with end 0 and step 1, the loop begins no iteration, and
  \<open>(0 - 2) / 1 + 1\<close> is negative.
\<close>

theorem iteration_bound_counterexample:
  "begun page (initial_frame fresh (example (Fin 1) (Fin 0) (Fin 2))) = Some 0
   \<and> solution page fresh (example (Fin 1) (Fin 0) (Fin 2))
     = Some (Return \<lparr>robustness = 0, adaptivity = 1, time = 2\<rparr>,
             \<lparr>heap = [[], [], []], globals = []\<rparr>, example (Fin 1) (Fin 0) (Fin 2))
   \<and> \<not> (real 0 \<le> (0 - 2) / 1 + 1)"
  by (simp add: begun_eq guard_initial solution_eq example_fields fresh_def)

section \<open>Determinism and effects\<close>

text \<open>
  C8. What a caller observes of a call depends on the solver object only, not on the store,
  on the global variables or on the page: any two calls on the same solver object end the
  same way, with the same three sequences when they return. In particular a call made in
  the state that an earlier call left behind ends as that call did.
\<close>

theorem deterministic:
  "trajectory h1 w1 s = trajectory h2 w2 s
   \<and> (\<exists>c w'. solution h1 w1 s = Some (c, w', s) \<and> trajectory h2 w' s = trajectory h1 w1 s)"
  by (simp add: trajectory_eq solution_eq)

text \<open>
  C9. Every call ends, returning or raising, and leaves the solver object and the global
  variables as they were and every array that existed before the call unchanged. No later
  call, on whatever solver object and page, changes the three arrays of a solution object
  that a call returned.
\<close>

theorem no_side_effects:
  "\<exists>c w'. solution h w s = Some (c, w', s)
     \<and> globals w' = globals w
     \<and> (\<forall>a<length (heap w). heap w' ! a = heap w ! a)
     \<and> (\<forall>sol h2 s2. c = Return sol \<longrightarrow>
           (\<exists>c2 w2. solution h2 w' s2 = Some (c2, w2, s2)
              \<and> contents (heap w2) sol = contents (heap w') sol))"
  by (simp add: solution_eq contents_def nth_append)

text \<open>
  A call that returns, in a state with one array and with global variables of the names
  that lines 40 and 41 assign to, on a page where \<open>self.params.time_step\<close> is 1; then a call
  that raises. The array, the global variables and the first solution object are untouched.
\<close>

theorem no_side_effects_witness:
  "solution \<lparr>self_time_step = Inr (Fin 1)\<rparr>
     \<lparr>heap = [[Fin 5]], globals = [(''delta_rob'', Fin 7), (''delta_ada'', Fin 8)]\<rparr>
     (example (Fin 1) (Fin 2) (Fin 3))
     = Some (Return \<lparr>robustness = 1, adaptivity = 2, time = 3\<rparr>,
             \<lparr>heap = [[Fin 5], [], [], []],
              globals = [(''delta_rob'', Fin 7), (''delta_ada'', Fin 8)]\<rparr>,
             example (Fin 1) (Fin 2) (Fin 3))
   \<and> (\<exists>c2 w2. solution \<lparr>self_time_step = Inr (Fin 1)\<rparr>
                     \<lparr>heap = [[Fin 5], [], [], []],
                      globals = [(''delta_rob'', Fin 7), (''delta_ada'', Fin 8)]\<rparr>
                     (example (Fin 1) (Fin 2) (Fin 0))
                   = Some (c2, w2, example (Fin 1) (Fin 2) (Fin 0))
              \<and> contents (heap w2) \<lparr>robustness = 1, adaptivity = 2, time = 3\<rparr>
                  = contents [[Fin 5], [], [], []] \<lparr>robustness = 1, adaptivity = 2, time = 3\<rparr>)"
proof -
  let ?h = "\<lparr>self_time_step = Inr (Fin 1)\<rparr>"
  let ?w = "\<lparr>heap = [[Fin 5]], globals = [(''delta_rob'', Fin 7), (''delta_ada'', Fin 8)]\<rparr>"
  let ?s = "example (Fin 1) (Fin 2) (Fin 3)"
  have run: "solution ?h ?w ?s
     = Some (Return \<lparr>robustness = 1, adaptivity = 2, time = 3\<rparr>,
             \<lparr>heap = [[Fin 5], [], [], []],
              globals = [(''delta_rob'', Fin 7), (''delta_ada'', Fin 8)]\<rparr>, ?s)"
    by (simp add: solution_eq example_fields)
  from no_side_effects [of ?h ?w ?s] run
  have "\<forall>sol h2 s2. Return \<lparr>robustness = 1, adaptivity = 2, time = 3\<rparr> = Return sol \<longrightarrow>
          (\<exists>c2 w2. solution h2 \<lparr>heap = [[Fin 5], [], [], []],
                 globals = [(''delta_rob'', Fin 7), (''delta_ada'', Fin 8)]\<rparr> s2 = Some (c2, w2, s2)
              \<and> contents (heap w2) sol = contents [[Fin 5], [], [], []] sol)"
    by simp
  then have "\<exists>c2 w2. solution ?h \<lparr>heap = [[Fin 5], [], [], []],
                 globals = [(''delta_rob'', Fin 7), (''delta_ada'', Fin 8)]\<rparr>
                 (example (Fin 1) (Fin 2) (Fin 0)) = Some (c2, w2, example (Fin 1) (Fin 2) (Fin 0))
              \<and> contents (heap w2) \<lparr>robustness = 1, adaptivity = 2, time = 3\<rparr>
                  = contents [[Fin 5], [], [], []] \<lparr>robustness = 1, adaptivity = 2, time = 3\<rparr>"
    by blast
  with run show ?thesis by blast
qed

section \<open>Runs that enter the loop\<close>

text \<open>
  C2. The claim is that for a step \<open>h > 0\<close> every sample of the returned trajectory but the
  first is the simultaneous Euler update of the sample before it. Lines 40 to 44 are written
  to do so, but no call that enters the loop returns a trajectory: the solver with coupled
  equations, started in \<open>(2, 1)\<close> at time 0 with step 1 and end 2, ends with the TypeError
  of line 35, on a page without global variables and on a page that has them.
\<close>

theorem coupled_run_raises:
  "solution page fresh coupled
     = Some (Throw TypeError, \<lparr>heap = [[], [], []], globals = []\<rparr>, coupled)
   \<and> solution \<lparr>self_time_step = Inr (Fin 1)\<rparr>
         \<lparr>heap = [], globals = [(''delta_rob'', Fin 0), (''delta_ada'', Fin 0)]\<rparr> coupled
     = Some (Throw TypeError,
             \<lparr>heap = [[], [], []], globals = [(''delta_rob'', Fin 0), (''delta_ada'', Fin 0)]\<rparr>,
             coupled)
   \<and> trajectory page fresh coupled = Some (Throw TypeError)"
  by (simp add: solution_eq trajectory_eq coupled_def constructor_def fresh_def)

text \<open>
  C4. The claim is that for a step \<open>h > 0\<close> the three returned sequences have equal length,
  are not empty when the initial time is at most the end, and hold times that increase by
  the step up to the end. In the scenario of the specification, step 1 from time 0 to the
  end 2, the initial time is at most the end and the call returns no sequences at all: it
  ends with the TypeError of line 35.
\<close>

theorem scenario_run_raises:
  "js_le (time (initial_values (example (Fin 1) (Fin 2) (Fin 0))))
     (end' (params (example (Fin 1) (Fin 2) (Fin 0))))
   \<and> solution page fresh (example (Fin 1) (Fin 2) (Fin 0))
     = Some (Throw TypeError, \<lparr>heap = [[], [], []], globals = []\<rparr>,
             example (Fin 1) (Fin 2) (Fin 0))
   \<and> trajectory page fresh (example (Fin 1) (Fin 2) (Fin 0)) = Some (Throw TypeError)"
  by (simp add: solution_eq trajectory_eq example_fields fresh_def)

text \<open>
  C5. The claim is that for a step \<open>h > 0\<close> a run whose end equals the initial time returns
  exactly the initial sample, and a run whose end is before the initial time returns no
  sample. With step 1 and end 2: started at time 2 the call ends with the TypeError of
  line 35 and returns nothing; started at time 3 it returns three empty sequences.
\<close>

theorem boundary_runs:
  "solution page fresh (example (Fin 1) (Fin 2) (Fin 2))
     = Some (Throw TypeError, \<lparr>heap = [[], [], []], globals = []\<rparr>,
             example (Fin 1) (Fin 2) (Fin 2))
   \<and> trajectory page fresh (example (Fin 1) (Fin 2) (Fin 2)) = Some (Throw TypeError)
   \<and> solution page fresh (example (Fin 1) (Fin 2) (Fin 3))
     = Some (Return \<lparr>robustness = 0, adaptivity = 1, time = 2\<rparr>,
             \<lparr>heap = [[], [], []], globals = []\<rparr>, example (Fin 1) (Fin 2) (Fin 3))
   \<and> trajectory page fresh (example (Fin 1) (Fin 2) (Fin 3))
     = Some (Return \<lparr>robustness = [], adaptivity = [], time = []\<rparr>)
   \<and> begun page (initial_frame fresh (example (Fin 1) (Fin 2) (Fin 3))) = Some 0"
  by (simp add: solution_eq trajectory_eq begun_eq guard_initial example_fields fresh_def)

text \<open>
  C7. The claim is that a run with step \<open>h > 0\<close> that starts in a zero of both derivatives
  returns a trajectory that stays there. The solver at rest starts in such a state, with
  step 1 from time 0 to the end 2: both methods return 0 there, and the call ends with the
  TypeError of line 35 and returns no trajectory.
\<close>

theorem at_rest_run_raises:
  "fst (computeDrDt at_rest (robustness (initial_values at_rest))
          (adaptivity (initial_values at_rest)) fresh) = Fin 0
   \<and> fst (computeDaDt at_rest (robustness (initial_values at_rest))
          (adaptivity (initial_values at_rest)) fresh) = Fin 0
   \<and> solution page fresh at_rest
     = Some (Throw TypeError, \<lparr>heap = [[], [], []], globals = []\<rparr>, at_rest)
   \<and> trajectory page fresh at_rest = Some (Throw TypeError)"
  by (simp add: solution_eq trajectory_eq fst_computeDrDt fst_computeDaDt at_rest_def
      constructor_def fresh_def fl_eval)

text \<open>
  C10. The claim is that a run whose step is \<open>NaN\<close> and whose initial time is at most the
  end performs exactly one iteration and returns the single initial sample. Started at
  time 0 with end 2 and step \<open>NaN\<close>, the loop begins one iteration, and the call ends in it
  with the TypeError of line 35: no sample is returned.
\<close>

theorem nan_step_run_raises:
  "js_le (time (initial_values (example NaN (Fin 2) (Fin 0))))
     (end' (params (example NaN (Fin 2) (Fin 0))))
   \<and> begun page (initial_frame fresh (example NaN (Fin 2) (Fin 0))) = Some 1
   \<and> solution page fresh (example NaN (Fin 2) (Fin 0))
     = Some (Throw TypeError, \<lparr>heap = [[], [], []], globals = []\<rparr>,
             example NaN (Fin 2) (Fin 0))
   \<and> trajectory page fresh (example NaN (Fin 2) (Fin 0)) = Some (Throw TypeError)"
  by (simp add: solution_eq trajectory_eq begun_eq guard_initial example_fields fresh_def)

end
